theory Spec2Isabelle
  imports Complex_Main
begin

section \<open>Text\<close>

text \<open>
  Python strings are modelled as \<^typ>\<open>string\<close>: a character is a code point below 256.
  Code points beyond that are outside the model. The helpers below are the Python string
  operations that \<^verbatim>\<open>scrape.py\<close> uses: \<^verbatim>\<open>str.strip()\<close>, \<^verbatim>\<open>sub in s\<close>,
  \<^verbatim>\<open>str.replace\<close>, \<^verbatim>\<open>sep.join\<close> and \<^verbatim>\<open>str.endswith\<close>.
\<close>

definition is_space :: "char \<Rightarrow> bool" where
  \<comment> \<open>\<^verbatim>\<open>str.isspace\<close> on one code point below 256; also what \<^verbatim>\<open>\s\<close> matches\<close>
  "is_space c = ((of_char c :: nat) \<in> {9, 10, 11, 12, 13, 28, 29, 30, 31, 32, 133, 160})"

definition is_digit :: "char \<Rightarrow> bool" where
  \<comment> \<open>what \<^verbatim>\<open>\d\<close> matches below code point 256\<close>
  "is_digit c = (48 \<le> (of_char c :: nat) \<and> (of_char c :: nat) \<le> 57)"

definition lower :: "char \<Rightarrow> char" where
  \<comment> \<open>case folding of the letters A to Z, as \<^verbatim>\<open>re.IGNORECASE\<close> compares them\<close>
  "lower c = (if 65 \<le> (of_char c :: nat) \<and> (of_char c :: nat) \<le> 90
              then char_of ((of_char c :: nat) + 32) else c)"

definition strip :: "string \<Rightarrow> string" where
  "strip s = rev (dropWhile is_space (rev (dropWhile is_space s)))"

definition startswith :: "string \<Rightarrow> string \<Rightarrow> bool" where
  \<comment> \<open>\<^verbatim>\<open>s.startswith(p)\<close>\<close>
  "startswith p s = (take (length p) s = p)"

definition endswith :: "string \<Rightarrow> string \<Rightarrow> bool" where
  \<comment> \<open>\<^verbatim>\<open>s.endswith(p)\<close>\<close>
  "endswith p s = (drop (length s - length p) s = p)"

fun contains :: "string \<Rightarrow> string \<Rightarrow> bool" where
  \<comment> \<open>\<^verbatim>\<open>p in s\<close>\<close>
  "contains p [] = (p = [])"
| "contains p (x # xs) = (startswith p (x # xs) \<or> contains p xs)"

fun join :: "string \<Rightarrow> string list \<Rightarrow> string" where
  \<comment> \<open>\<^verbatim>\<open>sep.join(xs)\<close>\<close>
  "join sep [] = []"
| "join sep [x] = x"
| "join sep (x # y # ys) = x @ sep @ join sep (y # ys)"

function replace :: "string \<Rightarrow> string \<Rightarrow> string \<Rightarrow> string" where
  \<comment> \<open>\<^verbatim>\<open>s.replace(old, new)\<close>: every non-overlapping occurrence, leftmost first\<close>
  "replace old new s =
     (if old = [] then new @ concat (map (\<lambda>c. c # new) s)
      else if s = [] then []
      else if startswith old s then new @ replace old new (drop (length old) s)
      else hd s # replace old new (tl s))"
  by pat_completeness auto
termination
  by (relation "measure (\<lambda>(old, new, s). length s)") auto

declare replace.simps [simp del]

section \<open>The document tree\<close>

text \<open>
  A parsed page as BeautifulSoup holds it: a tag has a name, the list value of its
  \<^verbatim>\<open>class\<close> attribute (empty when the attribute is absent), its other attributes and its
  children; a text node is a \<^verbatim>\<open>NavigableString\<close>.

  An element is reached through a tree, and \<^verbatim>\<open>.parent\<close> and \<^verbatim>\<open>find_next_sibling\<close> look
  outside the element itself. So an element is a node together with its context: the
  following siblings of the node, then those of its parent, and so on up to the children
  of the document object. The document object itself has the empty context: it has no
  sibling and no parent.
\<close>

datatype node =
    Tag string "string list" "(string \<times> string) list" "node list"
  | NavigableString string

type_synonym ctx = "node list list"
type_synonym element = "node \<times> ctx"

fun contents :: "node \<Rightarrow> node list" where
  "contents (Tag n cl a ks) = ks"
| "contents (NavigableString s) = []"

fun is_tag :: "string \<Rightarrow> node \<Rightarrow> bool" where
  \<comment> \<open>a tag of the given name\<close>
  "is_tag name (Tag n cl a ks) = (n = name)"
| "is_tag name (NavigableString s) = False"

fun classes :: "node \<Rightarrow> string list" where
  "classes (Tag n cl a ks) = cl"
| "classes (NavigableString s) = []"

fun get_attr :: "node \<Rightarrow> string \<Rightarrow> string option" where
  \<comment> \<open>\<^verbatim>\<open>tag.get(key)\<close>: None when the attribute is absent\<close>
  "get_attr (Tag n cl a ks) key = map_of a key"
| "get_attr (NavigableString s) key = None"

fun descendants :: "node list \<Rightarrow> ctx \<Rightarrow> element list" where
  \<comment> \<open>the nodes below a parent, in document order, each with its context;
      the arguments are the parent's children and the parent's context\<close>
  "descendants [] up = []"
| "descendants (NavigableString s # cs) up = (NavigableString s, cs # up) # descendants cs up"
| "descendants (Tag n cl a ks # cs) up =
     (Tag n cl a ks, cs # up) # descendants ks (cs # up) @ descendants cs up"

definition descendants_of :: "element \<Rightarrow> element list" where
  "descendants_of e = descendants (contents (fst e)) (snd e)"

fun all_strings :: "node \<Rightarrow> string list" where
  \<comment> \<open>the text nodes at or below a node, in document order\<close>
  "all_strings (NavigableString s) = [s]"
| "all_strings (Tag n cl a ks) = concat (map all_strings ks)"

definition get_text :: "node \<Rightarrow> string" where
  \<comment> \<open>\<^verbatim>\<open>tag.get_text()\<close>\<close>
  "get_text n = concat (all_strings n)"

definition get_text_strip :: "node \<Rightarrow> string" where
  \<comment> \<open>\<^verbatim>\<open>tag.get_text(strip=True)\<close>: each string stripped, the empty ones left out\<close>
  "get_text_strip n = concat (filter (\<lambda>s. s \<noteq> []) (map strip (all_strings n)))"

fun node_string :: "node \<Rightarrow> string option" where
  \<comment> \<open>\<^verbatim>\<open>tag.string\<close>: the single string below a tag with one child, else None\<close>
  "node_string (NavigableString s) = Some s"
| "node_string (Tag n cl a [k]) = node_string k"
| "node_string (Tag n cl a ks) = None"

definition has_class :: "string \<Rightarrow> string list \<Rightarrow> bool" where
  \<comment> \<open>the \<^verbatim>\<open>class_=c\<close> filter: one of the classes is \<open>c\<close>, or the whole attribute is\<close>
  "has_class c cl = (c \<in> set cl \<or> join '' '' cl = c)"

definition find_class :: "element \<Rightarrow> string \<Rightarrow> string \<Rightarrow> element option" where
  \<comment> \<open>\<^verbatim>\<open>e.find(name, class_=c)\<close>\<close>
  "find_class e name c =
     List.find (\<lambda>d. is_tag name (fst d) \<and> has_class c (classes (fst d))) (descendants_of e)"

definition find_all_class :: "element \<Rightarrow> string \<Rightarrow> string \<Rightarrow> element list" where
  \<comment> \<open>\<^verbatim>\<open>e.find_all(name, class_=c)\<close>\<close>
  "find_all_class e name c =
     filter (\<lambda>d. is_tag name (fst d) \<and> has_class c (classes (fst d))) (descendants_of e)"

definition find_string :: "element \<Rightarrow> string \<Rightarrow> (string option \<Rightarrow> bool) \<Rightarrow> element option" where
  \<comment> \<open>\<^verbatim>\<open>e.find(name, string=f)\<close>: the filter is applied to \<^verbatim>\<open>tag.string\<close>\<close>
  "find_string e name f =
     List.find (\<lambda>d. is_tag name (fst d) \<and> f (node_string (fst d))) (descendants_of e)"

definition find_all_string :: "element \<Rightarrow> string \<Rightarrow> (string option \<Rightarrow> bool) \<Rightarrow> element list" where
  \<comment> \<open>\<^verbatim>\<open>e.find_all(name, string=f)\<close>\<close>
  "find_all_string e name f =
     filter (\<lambda>d. is_tag name (fst d) \<and> f (node_string (fst d))) (descendants_of e)"

definition find_attr :: "element \<Rightarrow> string \<Rightarrow> string \<Rightarrow> (string option \<Rightarrow> bool) \<Rightarrow> element option" where
  \<comment> \<open>\<^verbatim>\<open>e.find(name, key=f)\<close>: the filter is applied to the attribute's value\<close>
  "find_attr e name key f =
     List.find (\<lambda>d. is_tag name (fst d) \<and> f (get_attr (fst d) key)) (descendants_of e)"

definition find_all_name :: "node \<Rightarrow> string \<Rightarrow> node list" where
  \<comment> \<open>\<^verbatim>\<open>tag.find_all(name)\<close>, the nodes only\<close>
  "find_all_name n name = filter (is_tag name) (map fst (descendants (contents n) []))"

definition string_is :: "string \<Rightarrow> string option \<Rightarrow> bool" where
  \<comment> \<open>the \<^verbatim>\<open>string=s\<close> filter for a literal: \<^verbatim>\<open>tag.string\<close> is exactly \<open>s\<close>\<close>
  "string_is s t = (t = Some s)"

definition string_has :: "string \<Rightarrow> string option \<Rightarrow> bool" where
  \<comment> \<open>\<^verbatim>\<open>lambda text: text and s in text\<close>\<close>
  "string_has s t = (case t of None \<Rightarrow> False | Some x \<Rightarrow> x \<noteq> [] \<and> contains s x)"

datatype py_error = AttributeError | ValueError | IOError

definition parent :: "ctx \<Rightarrow> py_error + ctx" where
  \<comment> \<open>\<^verbatim>\<open>e.parent\<close>, as the parent's context; using the parent of an element that has
      none raises AttributeError\<close>
  "parent c = (case c of [] \<Rightarrow> Inl AttributeError | own # up \<Rightarrow> Inr up)"

definition find_next_sibling :: "ctx \<Rightarrow> string \<Rightarrow> node option" where
  \<comment> \<open>\<^verbatim>\<open>e.find_next_sibling(name)\<close>: the first following sibling that is such a tag\<close>
  "find_next_sibling c name =
     (case c of [] \<Rightarrow> None | own # up \<Rightarrow> List.find (is_tag name) own)"

section \<open>Regular expressions\<close>

text \<open>
  The four patterns of \<^verbatim>\<open>experience_patterns\<close> are sequences of single-character items,
  each with at most one greedy quantifier, and the one group is the whole pattern. An
  item is a literal, \<^verbatim>\<open>\d\<close> or \<^verbatim>\<open>\s\<close>; \<^verbatim>\<open>re.IGNORECASE\<close> makes a literal match
  either case. \<open>match_here\<close> is the backtracking matcher of \<^verbatim>\<open>re\<close> at one position: a
  greedy item first takes a character and gives it back only when the rest fails. It
  returns the length of the first match found in that order. \<open>re_search\<close> tries the
  positions from the left, as \<^verbatim>\<open>re.search\<close> does, and returns \<^verbatim>\<open>match.group(0)\<close>.
\<close>

datatype item = Lit char | Digit | Space
datatype quant = One | Opt | Star | Plus

type_synonym pattern = "(item \<times> quant) list"

fun item_matches :: "item \<Rightarrow> char \<Rightarrow> bool" where
  "item_matches (Lit l) c = (lower c = lower l)"
| "item_matches Digit c = is_digit c"
| "item_matches Space c = is_space c"

fun match_here :: "pattern \<Rightarrow> string \<Rightarrow> nat option" where
  "match_here [] s = Some 0"
| "match_here ((i, One) # p) [] = None"
| "match_here ((i, One) # p) (c # cs) =
     (if item_matches i c then map_option Suc (match_here p cs) else None)"
| "match_here ((i, Opt) # p) [] = match_here p []"
| "match_here ((i, Opt) # p) (c # cs) =
     (if item_matches i c
      then (case match_here p cs of Some n \<Rightarrow> Some (Suc n) | None \<Rightarrow> match_here p (c # cs))
      else match_here p (c # cs))"
| "match_here ((i, Star) # p) [] = match_here p []"
| "match_here ((i, Star) # p) (c # cs) =
     (if item_matches i c
      then (case match_here ((i, Star) # p) cs of
              Some n \<Rightarrow> Some (Suc n)
            | None \<Rightarrow> match_here p (c # cs))
      else match_here p (c # cs))"
| "match_here ((i, Plus) # p) [] = None"
| "match_here ((i, Plus) # p) (c # cs) =
     (if item_matches i c then map_option Suc (match_here ((i, Star) # p) cs) else None)"

fun re_search :: "pattern \<Rightarrow> string \<Rightarrow> string option" where
  "re_search p [] = (case match_here p [] of Some n \<Rightarrow> Some [] | None \<Rightarrow> None)"
| "re_search p (c # cs) =
     (case match_here p (c # cs) of
        Some n \<Rightarrow> Some (take n (c # cs))
      | None \<Rightarrow> re_search p cs)"

definition lits :: "string \<Rightarrow> pattern" where
  \<comment> \<open>a run of literal characters\<close>
  "lits s = map (\<lambda>c. (Lit c, One)) s"

text \<open>
  The patterns, in the order of the source:
  \<^enum> \<^verbatim>\<open>(\d+\+?\s*years?\s*of\s*experience)\<close>
  \<^enum> \<^verbatim>\<open>(Minimum\s*of\s*\d+\s*years)\<close>
  \<^enum> \<^verbatim>\<open>(\d+\+\s*years?\s*in)\<close>
  \<^enum> \<^verbatim>\<open>(minimum\s*\d+\s*years)\<close>
\<close>

definition experience_patterns :: "pattern list" where
  "experience_patterns =
     [ [(Digit, Plus), (Lit CHR ''+'', Opt), (Space, Star)] @ lits ''year'' @
         [(Lit CHR ''s'', Opt), (Space, Star)] @ lits ''of'' @ [(Space, Star)] @
         lits ''experience'',
       lits ''Minimum'' @ [(Space, Star)] @ lits ''of'' @ [(Space, Star), (Digit, Plus),
         (Space, Star)] @ lits ''years'',
       [(Digit, Plus), (Lit CHR ''+'', One), (Space, Star)] @ lits ''year'' @
         [(Lit CHR ''s'', Opt), (Space, Star)] @ lits ''in'',
       lits ''minimum'' @ [(Space, Star), (Digit, Plus), (Space, Star)] @ lits ''years'' ]"

fun first_match :: "pattern list \<Rightarrow> string \<Rightarrow> string option" where
  \<comment> \<open>the loop over the patterns: the first pattern that matches decides, and ends it\<close>
  "first_match [] text = None"
| "first_match (p # ps) text =
     (case re_search p text of Some m \<Rightarrow> Some m | None \<Rightarrow> first_match ps text)"

definition experience_required :: "element \<Rightarrow> string" where
  \<comment> \<open>lines 47 to 64: \<^verbatim>\<open>experience_found if experience_found else ''\<close>\<close>
  "experience_required job_section =
     (let full_text = get_text (fst job_section) in
      case first_match experience_patterns full_text of
        None \<Rightarrow> []
      | Some experience_found \<Rightarrow> if experience_found \<noteq> [] then experience_found else [])"

section \<open>The job extractor\<close>

text \<open>
  A job record is the dictionary \<^verbatim>\<open>job_data\<close>: its keys in insertion order, each with a
  value that is a Python string or \<^verbatim>\<open>None\<close>.
\<close>

datatype pyval = PyNone | PyStr string

type_synonym job_data = "(string \<times> pyval) list"

definition BASE_URL :: string where
  "BASE_URL = ''https://techversantinfotech.com/talent/''"

record datetime =
  year :: nat
  month :: nat
  day :: nat
  hour :: nat
  minute :: nat
  second :: nat

fun dec :: "nat \<Rightarrow> string" where
  \<comment> \<open>a number in decimal\<close>
  "dec n = (if n < 10 then [char_of (48 + n)] else dec (n div 10) @ [char_of (48 + n mod 10)])"

definition dec2 :: "nat \<Rightarrow> string" where
  \<comment> \<open>a number in at least two digits\<close>
  "dec2 n = (if n < 10 then CHR ''0'' # dec n else dec n)"

definition strftime :: "datetime \<Rightarrow> string" where
  \<comment> \<open>\<^verbatim>\<open>strftime('%Y-%m-%d %H:%M:%S')\<close>; the year is written in full\<close>
  "strftime t = dec (year t) @ ''-'' @ dec2 (month t) @ ''-'' @ dec2 (day t) @ '' '' @
                dec2 (hour t) @ '':'' @ dec2 (minute t) @ '':'' @ dec2 (second t)"

definition and_then :: "py_error + 'a \<Rightarrow> ('a \<Rightarrow> py_error + 'b) \<Rightarrow> py_error + 'b" where
  \<comment> \<open>sequencing inside a \<^verbatim>\<open>try\<close> body: an exception ends it\<close>
  "and_then m f = (case m of Inl e \<Rightarrow> Inl e | Inr x \<Rightarrow> f x)"

definition class_text :: "element \<Rightarrow> string \<Rightarrow> string \<Rightarrow> string" where
  \<comment> \<open>lines 21 to 28: \<^verbatim>\<open>elem.get_text(strip=True) if elem else ''\<close>\<close>
  "class_text job_section name c =
     (case find_class job_section name c of
        Some elem \<Rightarrow> get_text_strip (fst elem)
      | None \<Rightarrow> [])"

definition apply_attr :: "element \<Rightarrow> string \<Rightarrow> pyval" where
  \<comment> \<open>lines 31 to 33: \<^verbatim>\<open>apply_button.get(key) if apply_button else ''\<close>\<close>
  "apply_attr job_section key =
     (case find_class job_section ''a'' ''crr_app_nw'' of
        Some apply_button \<Rightarrow>
          (case get_attr (fst apply_button) key of Some v \<Rightarrow> PyStr v | None \<Rightarrow> PyNone)
      | None \<Rightarrow> PyStr [])"

definition posting_date :: "element \<Rightarrow> string" where
  \<comment> \<open>lines 36 and 37\<close>
  "posting_date job_section =
     (case find_string job_section ''p'' (string_has ''Posted on'') of
        Some posting_date_elem \<Rightarrow> get_text_strip (fst posting_date_elem)
      | None \<Rightarrow> [])"

definition heading_paragraph :: "element \<Rightarrow> string \<Rightarrow> py_error + string" where
  \<comment> \<open>lines 40 to 45 and 85 to 90: the paragraph after the parent of a
      \<^verbatim>\<open>strong\<close> heading\<close>
  "heading_paragraph job_section heading =
     (case find_string job_section ''strong'' (string_is heading) of
        Some section \<Rightarrow>
          and_then (parent (snd section)) (\<lambda>up.
            case find_next_sibling up ''p'' of
              Some para \<Rightarrow> Inr (get_text_strip para)
            | None \<Rightarrow> Inr [])
      | None \<Rightarrow> Inr [])"

definition skills_keywords :: "string list" where
  "skills_keywords = [''Preferred Skills'', ''Required Skills'', ''Must-Have Skills'',
                      ''Technical Stack'']"

definition is_skills_heading :: "string option \<Rightarrow> bool" where
  \<comment> \<open>\<^verbatim>\<open>lambda text: text and any(keyword in text for keyword in [...])\<close>\<close>
  "is_skills_heading t =
     (case t of
        None \<Rightarrow> False
      | Some text \<Rightarrow> text \<noteq> [] \<and> list_ex (\<lambda>keyword. contains keyword text) skills_keywords)"

fun collect_skills :: "element list \<Rightarrow> string list \<Rightarrow> py_error + string list" where
  \<comment> \<open>lines 71 to 76: the loop over \<^verbatim>\<open>skills_sections\<close>, extending \<^verbatim>\<open>all_skills\<close>\<close>
  "collect_skills [] all_skills = Inr all_skills"
| "collect_skills (skills_section # rest) all_skills =
     and_then (parent (snd skills_section)) (\<lambda>up.
       case find_next_sibling up ''ul'' of
         Some skills_list \<Rightarrow>
           collect_skills rest
             (all_skills @ map get_text_strip (find_all_name skills_list ''li''))
       | None \<Rightarrow> collect_skills rest all_skills)"

definition skills_required :: "element \<Rightarrow> py_error + string" where
  \<comment> \<open>lines 66 to 78\<close>
  "skills_required job_section =
     (let skills_sections = find_all_string job_section ''strong'' is_skills_heading in
      and_then (collect_skills skills_sections []) (\<lambda>all_skills.
        Inr (if all_skills \<noteq> [] then join ''; '' all_skills else [])))"

definition contact_email :: "element \<Rightarrow> py_error + string" where
  \<comment> \<open>lines 80 to 82; \<^verbatim>\<open>.replace\<close> on a missing \<^verbatim>\<open>href\<close> would raise AttributeError\<close>
  "contact_email job_section =
     (case find_attr job_section ''a'' ''href'' (string_has ''mailto:'') of
        Some email_link \<Rightarrow>
          (case get_attr (fst email_link) ''href'' of
             Some href \<Rightarrow> Inr (replace ''mailto:'' [] href)
           | None \<Rightarrow> Inl AttributeError)
      | None \<Rightarrow> Inr [])"

definition important_heading :: string where
  "important_heading = ''What'' @ [CHR 0x27] @ ''s important to us:''"

definition extract_fields :: "datetime \<Rightarrow> element \<Rightarrow> py_error + job_data" where
  \<comment> \<open>the \<^verbatim>\<open>try\<close> body of \<^verbatim>\<open>extract_job_data\<close>; the result lists the keys in the
      order in which the body assigns them\<close>
  "extract_fields now job_section =
     and_then (heading_paragraph job_section important_heading) (\<lambda>summary.
     and_then (skills_required job_section) (\<lambda>skills.
     and_then (contact_email job_section) (\<lambda>email.
     and_then (heading_paragraph job_section ''What Company Offers:'') (\<lambda>benefits.
       Inr [(''JobTitle'', PyStr (class_text job_section ''h3'' ''crr_app_hh'')),
            (''JobCategory'', PyStr (class_text job_section ''span'' ''crr_app_tp bluecrr'')),
            (''Location'', PyStr (class_text job_section ''span'' ''crr_app_plc'')),
            (''JobURL'', apply_attr job_section ''href''),
            (''JobID'', apply_attr job_section ''datatitle''),
            (''PostingDate'', PyStr (posting_date job_section)),
            (''JobDescriptionSummary'', PyStr summary),
            (''ExperienceRequired'', PyStr (experience_required job_section)),
            (''SkillsRequired'', PyStr skills),
            (''ContactEmail'', PyStr email),
            (''CompanyBenefits'', PyStr benefits),
            (''Salary'', PyStr []),
            (''ScrapedDate'', PyStr (strftime now)),
            (''SourceURL'', PyStr BASE_URL)]))))"

definition extract_job_data :: "datetime \<Rightarrow> element \<Rightarrow> job_data option" where
  \<comment> \<open>both \<^verbatim>\<open>except\<close> clauses return None, the skip signal\<close>
  "extract_job_data now job_section =
     (case extract_fields now job_section of
        Inl e \<Rightarrow> None
      | Inr job_data \<Rightarrow> Some job_data)"

definition field :: "job_data \<Rightarrow> string \<Rightarrow> pyval option" where
  \<comment> \<open>\<^verbatim>\<open>job.get(key)\<close>\<close>
  "field job key = map_of job key"



section \<open>The spreadsheet exporter\<close>

text \<open>
  A pandas data frame is its column names and its rows, a row holding one cell per
  column. A cell is blank (\<^verbatim>\<open>None\<close> or \<^verbatim>\<open>NaN\<close>), a string or a number. A sheet of the
  workbook is the list of its rows of cells; fonts, fills, borders, widths and heights are
  not modelled.
\<close>

datatype cell = Blank | Str string | Num nat

record dataframe =
  columns :: "string list"
  rows :: "cell list list"

record workbook =
  jobs_sheet :: "cell list list"
  summary_sheet :: "cell list list"

definition to_cell :: "pyval option \<Rightarrow> cell" where
  \<comment> \<open>a missing key gives \<^verbatim>\<open>NaN\<close>\<close>
  "to_cell v = (case v of None \<Rightarrow> Blank | Some PyNone \<Rightarrow> Blank | Some (PyStr s) \<Rightarrow> Str s)"

definition first_seen :: "'a list \<Rightarrow> 'a list" where
  \<comment> \<open>the distinct members in the order of their first occurrence\<close>
  "first_seen xs = rev (remdups (rev xs))"

definition DataFrame :: "job_data list \<Rightarrow> dataframe" where
  \<comment> \<open>\<^verbatim>\<open>pd.DataFrame(jobs_data)\<close>: the columns are the keys as first seen\<close>
  "DataFrame jobs_data =
     (let cols = first_seen (concat (map (map fst) jobs_data)) in
      \<lparr>columns = cols,
       rows = map (\<lambda>job. map (\<lambda>c. to_cell (map_of job c)) cols) jobs_data\<rparr>)"

definition column :: "dataframe \<Rightarrow> string \<Rightarrow> cell list" where
  \<comment> \<open>\<^verbatim>\<open>df[name]\<close> for a column that exists\<close>
  "column df name =
     map (\<lambda>row. case map_of (zip (columns df) row) name of Some c \<Rightarrow> c | None \<Rightarrow> Blank)
       (rows df)"

definition select_columns :: "dataframe \<Rightarrow> string list \<Rightarrow> dataframe" where
  \<comment> \<open>\<^verbatim>\<open>df[cols]\<close> for columns that exist\<close>
  "select_columns df cols =
     \<lparr>columns = cols,
      rows = map (\<lambda>row. map (\<lambda>name. case map_of (zip (columns df) row) name of
                                        Some c \<Rightarrow> c | None \<Rightarrow> Blank) cols) (rows df)\<rparr>"

definition replace_empty :: "dataframe \<Rightarrow> dataframe" where
  \<comment> \<open>\<^verbatim>\<open>df.replace('', None)\<close>\<close>
  "replace_empty df =
     df\<lparr>rows := map (map (\<lambda>c. if c = Str [] then Blank else c)) (rows df)\<rparr>"

definition to_excel :: "dataframe \<Rightarrow> cell list list" where
  \<comment> \<open>\<^verbatim>\<open>df.to_excel(writer, index=False)\<close>: the header, then the rows; a frame
      without columns writes no cell\<close>
  "to_excel df = (if columns df = [] then [] else map Str (columns df) # rows df)"

definition value_counts :: "cell list \<Rightarrow> (cell \<times> nat) list" where
  \<comment> \<open>\<^verbatim>\<open>Series.value_counts()\<close>: blank cells are dropped, every other distinct value
      is counted, and the counts are sorted in descending order (here keeping the order of
      first occurrence among equal counts)\<close>
  "value_counts col =
     (let vals = filter (\<lambda>c. c \<noteq> Blank) col in
      sort_key (\<lambda>p. - int (snd p)) (map (\<lambda>v. (v, count_list vals v)) (first_seen vals)))"

fun format_cell :: "cell \<Rightarrow> string" where
  \<comment> \<open>a value inside an f-string\<close>
  "format_cell (Str s) = s"
| "format_cell (Num n) = dec n"
| "format_cell Blank = ''None''"

definition breakdown :: "dataframe \<Rightarrow> string \<Rightarrow> cell list list" where
  \<comment> \<open>lines 236 to 239 and 247 to 250: one row for each entry of \<^verbatim>\<open>value_counts\<close>,
      in its order\<close>
  "breakdown df name =
     (if name \<in> set (columns df)
      then map (\<lambda>(v, n). [Str (''  '' @ format_cell v), Num n]) (value_counts (column df name))
      else [])"

definition create_summary_sheet :: "datetime \<Rightarrow> dataframe \<Rightarrow> cell list list" where
  \<comment> \<open>the rows of \<^verbatim>\<open>summary_data\<close>, which the function writes cell by cell\<close>
  "create_summary_sheet now df =
     [[Str ''Metric'', Str ''Value''],
      [Str ''Total Jobs'', Num (length (rows df))],
      [Str ''Scraping Date'', Str (strftime now)],
      [Str ''Source'', Str ''Techversant Infotech''],
      [Str ''Source URL'', Str BASE_URL],
      [Str []],
      [Str ''Jobs by Category'', Str []]]
     @ breakdown df ''JobCategory''
     @ [[Str []],
        [Str ''Jobs by Location'', Str []]]
     @ breakdown df ''Location''"

definition column_order :: "string list" where
  "column_order =
     [''JobTitle'', ''JobCategory'', ''Location'', ''ExperienceRequired'',
      ''PostingDate'', ''JobDescriptionSummary'', ''SkillsRequired'',
      ''ContactEmail'', ''CompanyBenefits'', ''Salary'', ''JobURL'',
      ''JobID'', ''ScrapedDate'', ''SourceURL'']"

definition existing_columns :: "dataframe \<Rightarrow> string list" where
  \<comment> \<open>\<^verbatim>\<open>[col for col in column_order if col in df.columns]\<close>\<close>
  "existing_columns df = filter (\<lambda>col. col \<in> set (columns df)) column_order"

definition save_jobs_to_excel ::
  "bool \<Rightarrow> datetime \<Rightarrow> job_data list \<Rightarrow> string option \<Rightarrow> py_error + (string \<times> workbook)" where
  \<comment> \<open>returns the file name and the workbook written under it. \<open>write_ok\<close> says
      whether writing the file succeeds; \<open>now\<close> is the clock when the summary is made\<close>
  "save_jobs_to_excel write_ok now jobs_data filename =
     (if jobs_data = [] then Inl ValueError
      else
        let filename = (case filename of None \<Rightarrow> ''Techversant_Jobs.xlsx'' | Some f \<Rightarrow> f);
            filename = (if \<not> endswith ''.xlsx'' filename then filename @ ''.xlsx'' else filename);
            df = DataFrame jobs_data;
            df = select_columns df (existing_columns df);
            df = replace_empty df
        in if write_ok
           then Inr (filename,
                     \<lparr>jobs_sheet = to_excel df, summary_sheet = create_summary_sheet now df\<rparr>)
           else Inl IOError)"

section \<open>The validator\<close>

datatype log_event =
    NoJobsFound
  | Completeness nat nat
  | LowCompletionRate

definition truthy :: "pyval option \<Rightarrow> bool" where
  \<comment> \<open>the truth value of \<^verbatim>\<open>job.get(field)\<close>\<close>
  "truthy v = (case v of None \<Rightarrow> False | Some PyNone \<Rightarrow> False | Some (PyStr s) \<Rightarrow> s \<noteq> [])"

definition essential_fields :: "string list" where
  "essential_fields = [''JobTitle'', ''JobCategory'', ''Location'']"

definition is_complete :: "job_data \<Rightarrow> bool" where
  \<comment> \<open>\<^verbatim>\<open>all(job.get(field) for field in essential_fields)\<close>\<close>
  "is_complete job = list_all (\<lambda>f. truthy (field job f)) essential_fields"

text \<open>
  \<^verbatim>\<open>completion_rate\<close> is a float in the source. The model computes it exactly, as a
  rational: the rounding of the float quotient is not modelled.
\<close>

definition validate_scraped_data :: "job_data list \<Rightarrow> bool \<times> log_event list" where
  \<comment> \<open>the result, and what the function prints\<close>
  "validate_scraped_data jobs_data =
     (if jobs_data = [] then (False, [NoJobsFound])
      else
        let complete_jobs = length (filter is_complete jobs_data);
            completion_rate = (of_nat complete_jobs / of_nat (length jobs_data)) * (100 :: rat)
        in if completion_rate < 80
           then (False, [Completeness complete_jobs (length jobs_data), LowCompletionRate])
           else (True, [Completeness complete_jobs (length jobs_data)]))"

section \<open>The run\<close>

text \<open>
  What a run meets outside the program is its environment: the page that the request
  and the parser give (the children of the document object, or the request's failure),
  the clock, and whether the file can be written. \<open>extract_time e i\<close> is the time at which
  section \<open>i\<close> is extracted. A run ends with its result, the file name or None, and
  with the file it has written, if any. What \<^verbatim>\<open>scrape_jobs\<close> prints is not modelled;
  \<^verbatim>\<open>check_pagination\<close> only decides what is printed.
\<close>

record env =
  page :: "node list option"
  extract_time :: "nat \<Rightarrow> datetime"
  export_time :: datetime
  can_write :: bool

record outcome =
  result :: "string option"
  written :: "(string \<times> workbook) option"

definition failed :: outcome where
  \<comment> \<open>\<^verbatim>\<open>return None\<close>, nothing written\<close>
  "failed = \<lparr>result = None, written = None\<rparr>"

fun extract_all ::
  "(datetime \<Rightarrow> element \<Rightarrow> job_data option) \<Rightarrow> (nat \<Rightarrow> datetime) \<Rightarrow> nat \<Rightarrow> element list
     \<Rightarrow> job_data list" where
  \<comment> \<open>lines 335 to 348: the loop over \<^verbatim>\<open>job_sections\<close>, for any extractor;
      \<^verbatim>\<open>if job_data:\<close> rejects None and the empty dictionary\<close>
  "extract_all extract clock i [] = []"
| "extract_all extract clock i (job_section # rest) =
     (case extract (clock i) job_section of
        Some job_data \<Rightarrow>
          if job_data \<noteq> [] then job_data # extract_all extract clock (Suc i) rest
          else extract_all extract clock (Suc i) rest
      | None \<Rightarrow> extract_all extract clock (Suc i) rest)"

definition export_phase :: "env \<Rightarrow> job_data list \<Rightarrow> outcome" where
  \<comment> \<open>lines 352 to 365: validation, then the export; an exception of the export is
      caught at line 371\<close>
  "export_phase e jobs_data =
     (let (healthy, printed) = validate_scraped_data jobs_data in
      if jobs_data \<noteq> []
      then (case save_jobs_to_excel (can_write e) (export_time e) jobs_data None of
              Inr (filename, wb) \<Rightarrow> \<lparr>result = Some filename, written = Some (filename, wb)\<rparr>
            | Inl err \<Rightarrow> failed)
      else failed)"

definition soup :: "node list \<Rightarrow> element" where
  \<comment> \<open>the document object: a tag without parent or sibling\<close>
  "soup nodes = (Tag ''[document]'' [] [] nodes, [])"

definition scrape_jobs_with ::
  "(datetime \<Rightarrow> element \<Rightarrow> job_data option) \<Rightarrow> env \<Rightarrow> outcome" where
  \<comment> \<open>\<^verbatim>\<open>scrape_jobs\<close> for any extractor\<close>
  "scrape_jobs_with extract e =
     (case page e of
        None \<Rightarrow> failed
      | Some nodes \<Rightarrow>
          let job_sections = find_all_class (soup nodes) ''section'' ''crr_app_stt'' in
          if job_sections = [] then failed
          else export_phase e (extract_all extract (extract_time e) 0 job_sections))"

definition scrape_jobs :: "env \<Rightarrow> outcome" where
  "scrape_jobs e = scrape_jobs_with extract_job_data e"

definition sheet_cell :: "job_data \<Rightarrow> string \<Rightarrow> cell" where
  \<comment> \<open>what the Jobs sheet shows of a record in a column: blank for a missing key, for
      \<^verbatim>\<open>None\<close> and for the empty string\<close>
  "sheet_cell job name =
     (case map_of job name of
        Some (PyStr s) \<Rightarrow> if s = [] then Blank else Str s
      | _ \<Rightarrow> Blank)"

section \<open>Example inputs\<close>

definition t0 :: datetime where
  "t0 = \<lparr>year = 2024, month = 3, day = 7, hour = 9, minute = 5, second = 0\<rparr>"



definition section_plain :: element where
  \<comment> \<open>no pattern matches, and nothing else is there to extract\<close>
  "section_plain = (Tag ''section'' [''crr_app_stt''] [] [NavigableString ''Fresher''], [])"





definition section_two_mailto :: element where
  \<comment> \<open>a mail link whose address part names a second \<^verbatim>\<open>mailto:\<close>\<close>
  "section_two_mailto =
     (Tag ''section'' [''crr_app_stt''] []
        [Tag ''a'' [] [(''href'', ''mailto:hr@x.com?cc=mailto:b@x.com'')]
           [NavigableString ''Mail us'']], [])"

definition section_mail :: element where
  "section_mail =
     (Tag ''section'' [''crr_app_stt''] []
        [Tag ''a'' [] [(''href'', ''https://x.com/jobs'')] [NavigableString ''Jobs''],
         Tag ''a'' [] [(''href'', ''mailto:hr@x.com'')] [NavigableString ''Mail us'']], [])"

definition section_no_href :: element where
  \<comment> \<open>an apply link without \<^verbatim>\<open>href\<close> and \<^verbatim>\<open>datatitle\<close>\<close>
  "section_no_href =
     (Tag ''section'' [''crr_app_stt''] []
        [Tag ''h3'' [''crr_app_hh''] [] [NavigableString ''Tester''],
         Tag ''a'' [''crr_app_nw''] [] [NavigableString ''Apply'']], [])"


definition failing_on_bad :: "datetime \<Rightarrow> element \<Rightarrow> job_data option" where
  \<comment> \<open>an extractor that gives the skip signal for a section whose text is \<^verbatim>\<open>bad\<close>\<close>
  "failing_on_bad now job_section =
     (if get_text (fst job_section) = ''bad'' then None else extract_job_data now job_section)"

definition posting :: "string \<Rightarrow> node" where
  \<comment> \<open>a posting section that holds a title only\<close>
  "posting title =
     Tag ''section'' [''crr_app_stt''] []
       [Tag ''h3'' [''crr_app_hh''] [] [NavigableString title]]"

definition env_three :: env where
  \<comment> \<open>a page of three postings, the second of them \<^verbatim>\<open>bad\<close>\<close>
  "env_three =
     \<lparr>page = Some [posting ''Tester'', posting ''bad'', posting ''Developer''],
      extract_time = (\<lambda>i. t0\<lparr>second := i\<rparr>),
      export_time = t0,
      can_write = True\<rparr>"

definition env_bad_only :: env where
  "env_bad_only = env_three\<lparr>page := Some [posting ''bad'']\<rparr>"

definition env_no_sections :: env where
  "env_no_sections =
     env_three\<lparr>page := Some [Tag ''div'' [] [] [NavigableString ''No openings'']]\<rparr>"


definition job_in :: "string \<Rightarrow> string \<Rightarrow> string \<Rightarrow> job_data" where
  \<comment> \<open>a record with the given title, category and location\<close>
  "job_in title category location =
     [(''JobTitle'', PyStr title), (''JobCategory'', PyStr category),
      (''Location'', PyStr location),
      (''JobURL'', PyStr []), (''JobID'', PyStr []), (''PostingDate'', PyStr []),
      (''JobDescriptionSummary'', PyStr []), (''ExperienceRequired'', PyStr []),
      (''SkillsRequired'', PyStr []), (''ContactEmail'', PyStr []),
      (''CompanyBenefits'', PyStr []), (''Salary'', PyStr []),
      (''ScrapedDate'', PyStr (strftime t0)),
      (''SourceURL'', PyStr BASE_URL)]"


definition jobs_blank_category :: "job_data list" where
  \<comment> \<open>two records, the second without a category\<close>
  "jobs_blank_category =
     [job_in ''Tester'' ''QA'' ''Kochi'',
      job_in ''Architect'' [] ''Kochi'']"

section \<open>The extractor never raises\<close>

text \<open>
  Every element that a search returns lies below the section, so it has a parent, and
  the link found by its \<^verbatim>\<open>href\<close> has one. Hence no step of the \<^verbatim>\<open>try\<close> body raises,
  and the extractor returns the record with its fourteen keys.
\<close>

lemma descendants_context: "d \<in> set (descendants cs up) \<Longrightarrow> snd d \<noteq> []"
  by (induction cs up rule: descendants.induct) auto

lemma parent_of_descendant:
  "d \<in> set (descendants_of e) \<Longrightarrow> \<exists>up. parent (snd d) = Inr up"
  by (auto simp: descendants_of_def parent_def dest: descendants_context split: list.splits)

lemma find_in_set: "List.find P xs = Some x \<Longrightarrow> x \<in> set xs \<and> P x"
  by (induction xs) (auto split: if_splits)

lemma heading_paragraph_returns: "\<exists>t. heading_paragraph e h = Inr t"
proof (cases "find_string e ''strong'' (string_is h)")
  case None
  then show ?thesis by (simp add: heading_paragraph_def)
next
  case (Some d)
  then have "d \<in> set (descendants_of e)"
    by (auto simp: find_string_def dest: find_in_set)
  then obtain up where "parent (snd d) = Inr up"
    using parent_of_descendant by blast
  with Some show ?thesis
    by (simp add: heading_paragraph_def and_then_def split: option.splits)
qed

lemma collect_skills_returns:
  "(\<forall>d \<in> set ds. snd d \<noteq> []) \<Longrightarrow> \<exists>xs. collect_skills ds acc = Inr xs"
proof (induction ds arbitrary: acc)
  case Nil
  then show ?case by simp
next
  case (Cons d ds)
  then obtain own up where "snd d = own # up"
    by (cases "snd d") auto
  then have "parent (snd d) = Inr up"
    by (simp add: parent_def)
  with Cons show ?case
    by (simp add: and_then_def split: option.splits)
qed

lemma skills_required_returns: "\<exists>t. skills_required e = Inr t"
proof -
  have "\<forall>d \<in> set (find_all_string e ''strong'' is_skills_heading). snd d \<noteq> []"
    by (auto simp: find_all_string_def descendants_of_def dest: descendants_context)
  then obtain xs where
    "collect_skills (find_all_string e ''strong'' is_skills_heading) [] = Inr xs"
    using collect_skills_returns by blast
  then show ?thesis
    by (simp add: skills_required_def and_then_def)
qed

lemma contact_email_returns: "\<exists>t. contact_email e = Inr t"
proof (cases "find_attr e ''a'' ''href'' (string_has ''mailto:'')")
  case None
  then show ?thesis by (simp add: contact_email_def)
next
  case (Some d)
  then have "string_has ''mailto:'' (get_attr (fst d) ''href'')"
    by (auto simp: find_attr_def dest: find_in_set)
  then obtain h where "get_attr (fst d) ''href'' = Some h"
    by (auto simp: string_has_def split: option.splits)
  with Some show ?thesis by (simp add: contact_email_def)
qed

lemma extract_job_data_record:
  "\<exists>summary skills email benefits.
     heading_paragraph e important_heading = Inr summary \<and>
     skills_required e = Inr skills \<and>
     contact_email e = Inr email \<and>
     heading_paragraph e ''What Company Offers:'' = Inr benefits \<and>
     extract_job_data now e = Some
       [(''JobTitle'', PyStr (class_text e ''h3'' ''crr_app_hh'')),
        (''JobCategory'', PyStr (class_text e ''span'' ''crr_app_tp bluecrr'')),
        (''Location'', PyStr (class_text e ''span'' ''crr_app_plc'')),
        (''JobURL'', apply_attr e ''href''),
        (''JobID'', apply_attr e ''datatitle''),
        (''PostingDate'', PyStr (posting_date e)),
        (''JobDescriptionSummary'', PyStr summary),
        (''ExperienceRequired'', PyStr (experience_required e)),
        (''SkillsRequired'', PyStr skills),
        (''ContactEmail'', PyStr email),
        (''CompanyBenefits'', PyStr benefits),
        (''Salary'', PyStr []),
        (''ScrapedDate'', PyStr (strftime now)),
        (''SourceURL'', PyStr BASE_URL)]"
proof -
  obtain summary where 1: "heading_paragraph e important_heading = Inr summary"
    using heading_paragraph_returns by blast
  obtain skills where 2: "skills_required e = Inr skills"
    using skills_required_returns by blast
  obtain email where 3: "contact_email e = Inr email"
    using contact_email_returns by blast
  obtain benefits where 4: "heading_paragraph e ''What Company Offers:'' = Inr benefits"
    using heading_paragraph_returns by blast
  show ?thesis
    unfolding extract_job_data_def extract_fields_def and_then_def 1 2 3 4
    by simp
qed

section \<open>ExperienceRequired\<close>







section \<open>Strings and skills: auxiliary facts\<close>



lemma replace_absent: "old \<noteq> [] \<Longrightarrow> \<not> contains old s \<Longrightarrow> replace old new s = s"
proof (induction s)
  case Nil
  then show ?case by (subst replace.simps) simp
next
  case (Cons x xs)
  then have "\<not> startswith old (x # xs)" "\<not> contains old xs" by auto
  with Cons show ?case by (subst replace.simps) simp
qed

lemma replace_prefix: "old \<noteq> [] \<Longrightarrow> replace old new (old @ rest) = new @ replace old new rest"
  by (subst replace.simps) (simp add: startswith_def)





section \<open>SkillsRequired\<close>




section \<open>ContactEmail\<close>

text \<open>
  C9, as stated, at a link whose \<^verbatim>\<open>href\<close> names \<^verbatim>\<open>mailto:\<close> twice: the extractor
  removes both, so the result is not the \<^verbatim>\<open>href\<close> without its leading \<^verbatim>\<open>mailto:\<close>.
\<close>

theorem contact_email_counterexample:
  "map_option fst (find_attr section_two_mailto ''a'' ''href'' (string_has ''mailto:''))
     = Some (Tag ''a'' [] [(''href'', ''mailto:hr@x.com?cc=mailto:b@x.com'')]
               [NavigableString ''Mail us'']) \<and>
   map_option (\<lambda>job. field job ''ContactEmail'') (extract_job_data t0 section_two_mailto)
     = Some (Some (PyStr ''hr@x.com?cc=b@x.com'')) \<and>
   ''hr@x.com?cc=b@x.com'' \<noteq> drop (length ''mailto:'') ''mailto:hr@x.com?cc=mailto:b@x.com''"
  by code_simp

lemma contact_email_value:
  "contact_email e =
     Inr (case find_attr e ''a'' ''href'' (string_has ''mailto:'') of
            None \<Rightarrow> []
          | Some link \<Rightarrow> replace ''mailto:'' [] (the (get_attr (fst link) ''href'')))"
proof (cases "find_attr e ''a'' ''href'' (string_has ''mailto:'')")
  case None
  then show ?thesis by (simp add: contact_email_def)
next
  case (Some d)
  then have "string_has ''mailto:'' (get_attr (fst d) ''href'')"
    by (auto simp: find_attr_def dest: find_in_set)
  then obtain h where "get_attr (fst d) ''href'' = Some h"
    by (auto simp: string_has_def split: option.splits)
  with Some show ?thesis by (simp add: contact_email_def)
qed

text \<open>
  C9, amended. Every posting section yields a record. Its ContactEmail is the empty
  string when no link's \<^verbatim>\<open>href\<close> contains \<^verbatim>\<open>mailto:\<close>. Otherwise it is the \<^verbatim>\<open>href\<close> of
  the first such link with every occurrence of \<^verbatim>\<open>mailto:\<close> removed; when \<^verbatim>\<open>mailto:\<close> is
  the prefix and does not occur in the rest, that is the rest, unchanged.
\<close>

theorem contact_email_removes_every_mailto:
  "\<exists>job x. extract_job_data now e = Some job \<and>
     field job ''ContactEmail'' = Some (PyStr x) \<and>
     (case List.find (\<lambda>d. is_tag ''a'' (fst d)
               \<and> (\<exists>h. get_attr (fst d) ''href'' = Some h \<and> contains ''mailto:'' h))
             (descendants_of e) of
        None \<Rightarrow> x = []
      | Some link \<Rightarrow>
          (\<exists>href. get_attr (fst link) ''href'' = Some href \<and>
             x = replace ''mailto:'' [] href \<and>
             (\<forall>rest. href = ''mailto:'' @ rest \<and> \<not> contains ''mailto:'' rest \<longrightarrow> x = rest)))"
proof -
  let ?P = "\<lambda>d. is_tag ''a'' (fst d)
               \<and> (\<exists>h. get_attr (fst d) ''href'' = Some h \<and> contains ''mailto:'' h)"
  have P: "(\<lambda>d. is_tag ''a'' (fst d) \<and> string_has ''mailto:'' (get_attr (fst d) ''href'')) = ?P"
    by (auto simp: string_has_def fun_eq_iff split: option.splits)
  have fa: "find_attr e ''a'' ''href'' (string_has ''mailto:'') = List.find ?P (descendants_of e)"
    unfolding find_attr_def P ..
  let ?x = "case List.find ?P (descendants_of e) of
            None \<Rightarrow> []
          | Some link \<Rightarrow> replace ''mailto:'' [] (the (get_attr (fst link) ''href''))"
  have c: "contact_email e = Inr ?x"
    using contact_email_value [of e] fa by simp
  obtain job where job: "extract_job_data now e = Some job"
    and "map_of job ''ContactEmail'' = Some (PyStr ?x)"
    using extract_job_data_record [of e now] c by auto
  then have f: "field job ''ContactEmail'' = Some (PyStr ?x)"
    by (simp add: field_def)
  have "case List.find ?P (descendants_of e) of
        None \<Rightarrow> ?x = []
      | Some link \<Rightarrow>
          (\<exists>href. get_attr (fst link) ''href'' = Some href \<and>
             ?x = replace ''mailto:'' [] href \<and>
             (\<forall>rest. href = ''mailto:'' @ rest \<and> \<not> contains ''mailto:'' rest \<longrightarrow> ?x = rest))"
  proof (cases "List.find ?P (descendants_of e)")
    case None
    then show ?thesis by simp
  next
    case (Some link)
    then obtain href where h: "get_attr (fst link) ''href'' = Some href"
      by (auto dest: find_in_set)
    have "replace ''mailto:'' [] href = rest"
      if "href = ''mailto:'' @ rest \<and> \<not> contains ''mailto:'' rest" for rest
    proof -
      have "replace ''mailto:'' [] (''mailto:'' @ rest) = [] @ replace ''mailto:'' [] rest"
        by (rule replace_prefix) simp
      moreover have "replace ''mailto:'' [] rest = rest"
        using that by (intro replace_absent) auto
      ultimately show ?thesis using that by simp
    qed
    with Some h show ?thesis by simp
  qed
  with job f show ?thesis by blast
qed

theorem contact_email_removes_every_mailto_witness:
  "(\<exists>job. extract_job_data t0 section_mail = Some job \<and>
      field job ''ContactEmail'' = Some (PyStr ''hr@x.com'')) \<and>
   (\<exists>job. extract_job_data t0 section_plain = Some job \<and>
      field job ''ContactEmail'' = Some (PyStr []))"
proof -
  let ?P = "\<lambda>d. is_tag ''a'' (fst d)
               \<and> (\<exists>h. get_attr (fst d) ''href'' = Some h \<and> contains ''mailto:'' h)"
  have 1: "List.find ?P (descendants_of section_mail)
             = Some (Tag ''a'' [] [(''href'', ''mailto:hr@x.com'')] [NavigableString ''Mail us''],
                     [[]])"
    by (simp add: section_mail_def descendants_of_def startswith_def)
  have 2: "\<not> contains ''mailto:'' ''hr@x.com''"
    by code_simp
  have a: "\<exists>job. extract_job_data t0 section_mail = Some job \<and>
      field job ''ContactEmail'' = Some (PyStr ''hr@x.com'')"
    using contact_email_removes_every_mailto [of t0 section_mail] 2 unfolding 1 by auto
  have 3: "List.find ?P (descendants_of section_plain) = None"
    by (simp add: section_plain_def descendants_of_def)
  have b: "\<exists>job. extract_job_data t0 section_plain = Some job \<and>
      field job ''ContactEmail'' = Some (PyStr [])"
    using contact_email_removes_every_mailto [of t0 section_plain] unfolding 3 by auto
  show ?thesis using a b by blast
qed

section \<open>The record's keys and metadata\<close>

lemma strftime_nonempty: "strftime t \<noteq> []"
  by (simp add: strftime_def)


text \<open>
  C3. Whenever the extractor produces a record, its ScrapedDate is the formatted time of
  the extraction and its SourceURL is the base URL, and neither is empty, whatever the
  other fields hold.
\<close>

theorem scraped_date_and_source_url_populated:
  "extract_job_data now e = Some job \<Longrightarrow>
     (\<exists>d u. field job ''ScrapedDate'' = Some (PyStr d) \<and> d = strftime now \<and> d \<noteq> [] \<and>
            field job ''SourceURL'' = Some (PyStr u) \<and> u = BASE_URL \<and> u \<noteq> [])"
proof -
  assume "extract_job_data now e = Some job"
  then have "map_of job ''ScrapedDate'' = Some (PyStr (strftime now))"
    and "map_of job ''SourceURL'' = Some (PyStr BASE_URL)"
    using extract_job_data_record [of e now] by auto
  moreover have "BASE_URL \<noteq> []"
    by (simp add: BASE_URL_def)
  ultimately show ?thesis
    using strftime_nonempty by (simp add: field_def)
qed

theorem scraped_date_and_source_url_populated_witness:
  "extract_job_data t0 section_plain = Some
     [(''JobTitle'', PyStr []), (''JobCategory'', PyStr []), (''Location'', PyStr []),
      (''JobURL'', PyStr []), (''JobID'', PyStr []), (''PostingDate'', PyStr []),
      (''JobDescriptionSummary'', PyStr []), (''ExperienceRequired'', PyStr []),
      (''SkillsRequired'', PyStr []), (''ContactEmail'', PyStr []),
      (''CompanyBenefits'', PyStr []), (''Salary'', PyStr []),
      (''ScrapedDate'', PyStr ''2024-03-07 09:05:00''),
      (''SourceURL'', PyStr ''https://techversantinfotech.com/talent/'')] \<and>
   (\<exists>d u. field (the (extract_job_data t0 section_plain)) ''ScrapedDate'' = Some (PyStr d)
            \<and> d \<noteq> [] \<and>
          field (the (extract_job_data t0 section_plain)) ''SourceURL'' = Some (PyStr u)
            \<and> u \<noteq> [])"
proof -
  have e: "extract_job_data t0 section_plain = Some
     [(''JobTitle'', PyStr []), (''JobCategory'', PyStr []), (''Location'', PyStr []),
      (''JobURL'', PyStr []), (''JobID'', PyStr []), (''PostingDate'', PyStr []),
      (''JobDescriptionSummary'', PyStr []), (''ExperienceRequired'', PyStr []),
      (''SkillsRequired'', PyStr []), (''ContactEmail'', PyStr []),
      (''CompanyBenefits'', PyStr []), (''Salary'', PyStr []),
      (''ScrapedDate'', PyStr ''2024-03-07 09:05:00''),
      (''SourceURL'', PyStr ''https://techversantinfotech.com/talent/'')]"
    by code_simp
  from scraped_date_and_source_url_populated [OF e] e show ?thesis
    by (simp only: option.sel) blast
qed

text \<open>
  C10, at a section whose apply link has neither \<^verbatim>\<open>href\<close> nor \<^verbatim>\<open>datatitle\<close>: the
  record's JobURL and JobID are \<^verbatim>\<open>None\<close>, not a string.
\<close>

theorem apply_link_without_attributes:
  "map_option (\<lambda>job. (field job ''JobTitle'', field job ''JobURL'', field job ''JobID''))
     (extract_job_data t0 section_no_href)
     = Some (Some (PyStr ''Tester''), Some PyNone, Some PyNone)"
  by code_simp

section \<open>The run\<close>




lemma export_phase_empty: "export_phase e [] = failed"
  by (simp add: export_phase_def split: prod.splits)




text \<open>
  C7. When the page has no posting section, or when no record survives the extraction,
  the run returns None and writes no file.
\<close>

theorem no_data_no_file:
  "(page e = Some nodes \<and> find_all_class (soup nodes) ''section'' ''crr_app_stt'' = []
      \<longrightarrow> scrape_jobs e = \<lparr>result = None, written = None\<rparr>
          \<and> scrape_jobs_with extract e = \<lparr>result = None, written = None\<rparr>) \<and>
   (page e = Some nodes
      \<and> extract_all extract (extract_time e) 0
            (find_all_class (soup nodes) ''section'' ''crr_app_stt'') = []
      \<longrightarrow> scrape_jobs_with extract e = \<lparr>result = None, written = None\<rparr>) \<and>
   (page e = Some nodes
      \<and> extract_all extract_job_data (extract_time e) 0
            (find_all_class (soup nodes) ''section'' ''crr_app_stt'') = []
      \<longrightarrow> scrape_jobs e = \<lparr>result = None, written = None\<rparr>)"
proof -
  have gen: "scrape_jobs_with ex e = \<lparr>result = None, written = None\<rparr>"
    if "page e = Some nodes"
      and "extract_all ex (extract_time e) 0
             (find_all_class (soup nodes) ''section'' ''crr_app_stt'') = []"
    for ex
    using that by (simp add: scrape_jobs_with_def Let_def export_phase_empty failed_def)
  have none: "scrape_jobs_with ex e = \<lparr>result = None, written = None\<rparr>"
    if "page e = Some nodes"
      and "find_all_class (soup nodes) ''section'' ''crr_app_stt'' = []"
    for ex
    using that by (simp add: scrape_jobs_with_def Let_def failed_def)
  show ?thesis
    using gen none by (simp add: scrape_jobs_def)
qed

theorem no_data_no_file_witness:
  "find_all_class (soup [Tag ''div'' [] [] [NavigableString ''No openings'']])
       ''section'' ''crr_app_stt'' = [] \<and>
   scrape_jobs env_no_sections = \<lparr>result = None, written = None\<rparr> \<and>
   find_all_class (soup [posting ''bad'']) ''section'' ''crr_app_stt''
     = [(posting ''bad'', [[]])] \<and>
   extract_all failing_on_bad (extract_time env_bad_only) 0 [(posting ''bad'', [[]])] = [] \<and>
   scrape_jobs_with failing_on_bad env_bad_only = \<lparr>result = None, written = None\<rparr>"
proof -
  have p1: "page env_no_sections = Some [Tag ''div'' [] [] [NavigableString ''No openings'']]"
    by (simp add: env_no_sections_def env_three_def)
  have s1: "find_all_class (soup [Tag ''div'' [] [] [NavigableString ''No openings'']])
       ''section'' ''crr_app_stt'' = []"
    by code_simp
  have a: "scrape_jobs env_no_sections = \<lparr>result = None, written = None\<rparr>"
    using no_data_no_file [of env_no_sections _ extract_job_data] p1 s1 by blast
  have p2: "page env_bad_only = Some [posting ''bad'']"
    by (simp add: env_bad_only_def env_three_def)
  have s2: "find_all_class (soup [posting ''bad'']) ''section'' ''crr_app_stt''
     = [(posting ''bad'', [[]])]"
    by code_simp
  have x: "extract_all failing_on_bad (extract_time env_bad_only) 0 [(posting ''bad'', [[]])] = []"
    by code_simp
  have b: "scrape_jobs_with failing_on_bad env_bad_only = \<lparr>result = None, written = None\<rparr>"
    using no_data_no_file [of env_bad_only "[posting ''bad'']" failing_on_bad] p2 s2 x by simp
  show ?thesis
    using s1 a s2 x b by simp
qed

section \<open>The validator\<close>







section \<open>The exported frame\<close>

lemma set_first_seen: "set (first_seen xs) = set xs"
  by (simp add: first_seen_def)

lemma distinct_first_seen: "distinct (first_seen xs)"
  by (simp add: first_seen_def)






section \<open>The workbook\<close>






section \<open>The summary sheet\<close>

lemma count_list_filter: "P v \<Longrightarrow> count_list (filter P xs) v = count_list xs v"
  by (induction xs) auto

lemma count_list_map: "count_list (map f xs) y = length (filter (\<lambda>x. f x = y) xs)"
  by (induction xs) auto

lemma value_counts_set:
  "set (value_counts col) = (\<lambda>v. (v, count_list col v)) ` (set col - {Blank})"
proof -
  let ?vals = "filter (\<lambda>c. c \<noteq> Blank) col"
  have "set (value_counts col) = (\<lambda>v. (v, count_list ?vals v)) ` set ?vals"
    by (simp add: value_counts_def Let_def set_first_seen)
  also have "\<dots> = (\<lambda>v. (v, count_list col v)) ` set ?vals"
    by (intro image_cong refl) (simp add: count_list_filter)
  also have "set ?vals = set col - {Blank}"
    by auto
  finally show ?thesis .
qed

lemma value_counts_distinct: "distinct (map fst (value_counts col))"
proof -
  let ?vals = "filter (\<lambda>c. c \<noteq> Blank) col"
  let ?xs = "map (\<lambda>v. (v, count_list ?vals v)) (first_seen ?vals)"
  have "map fst ?xs = first_seen ?vals"
    by (simp add: comp_def)
  then have "distinct (map fst ?xs)"
    by (simp only: distinct_first_seen)
  then have "distinct ?xs" and "inj_on fst (set ?xs)"
    by (simp_all only: distinct_map)
  then have "distinct (sort_key (\<lambda>p. - int (snd p)) ?xs)"
    and "inj_on fst (set (sort_key (\<lambda>p. - int (snd p)) ?xs))"
    by simp_all
  then show ?thesis
    unfolding value_counts_def Let_def by (simp only: distinct_map)
qed

lemma value_counts_descending:
  "sorted_wrt (\<lambda>p q. snd q \<le> snd p) (value_counts col)"
proof -
  have "sorted (map (\<lambda>p. - int (snd p)) (value_counts col))"
    unfolding value_counts_def Let_def by (rule sorted_sort_key)
  then show ?thesis
    by (simp add: sorted_map)
qed

lemma exported_column:
  "columns df = cols \<Longrightarrow> rows df = map (\<lambda>job. map (g job) cols) jobs \<Longrightarrow> key \<in> set cols \<Longrightarrow>
     column df key = map (\<lambda>job. g job key) jobs"
  by (simp add: column_def map_of_zip_map)

lemma sheet_cell_Str:
  "sheet_cell job key = Str s \<longleftrightarrow> s \<noteq> [] \<and> field job key = Some (PyStr s)"
  by (auto simp: sheet_cell_def field_def split: option.splits pyval.splits if_splits)

lemma sheet_cell_cases:
  "sheet_cell job key = Blank \<or> (\<exists>s. sheet_cell job key = Str s)"
  by (auto simp: sheet_cell_def split: option.splits pyval.splits)

lemma breakdown_strings:
  assumes c: "columns df = column_order"
    and r: "rows df = map (\<lambda>job. map (sheet_cell job) column_order) jobs"
    and k: "key \<in> set column_order"
  shows "\<exists>vs. breakdown df key =
             map (\<lambda>s. [Str (''  '' @ s),
                        Num (length (filter (\<lambda>job. field job key = Some (PyStr s)) jobs))]) vs \<and>
           distinct vs \<and>
           set vs = {s. s \<noteq> [] \<and> (\<exists>job \<in> set jobs. field job key = Some (PyStr s))} \<and>
           sorted_wrt (\<lambda>a b. length (filter (\<lambda>job. field job key = Some (PyStr b)) jobs)
                           \<le> length (filter (\<lambda>job. field job key = Some (PyStr a)) jobs)) vs"
proof -
  let ?cnt = "\<lambda>s. length (filter (\<lambda>job. field job key = Some (PyStr s)) jobs)"
  let ?col = "map (\<lambda>job. sheet_cell job key) jobs"
  let ?ys = "value_counts ?col"
  let ?vs = "map (\<lambda>p. format_cell (fst p)) ?ys"
  have col: "column df key = ?col"
    using c r k by (rule exported_column)
  have cnt: "count_list ?col (Str s) = ?cnt s" if "s \<noteq> []" for s
    using that by (simp add: count_list_map sheet_cell_Str)
  have entry: "\<exists>s. s \<noteq> [] \<and> p = (Str s, ?cnt s) \<and> (\<exists>job \<in> set jobs. field job key = Some (PyStr s))"
    if "p \<in> set ?ys" for p
  proof -
    from that obtain v where v: "v \<in> set ?col" "v \<noteq> Blank" and p: "p = (v, count_list ?col v)"
      unfolding value_counts_set by blast
    from v obtain job where job: "job \<in> set jobs" "v = sheet_cell job key"
      by auto
    with v obtain s where s: "sheet_cell job key = Str s"
      using sheet_cell_cases [of job key] by auto
    then have "s \<noteq> []" and "field job key = Some (PyStr s)"
      by (simp_all add: sheet_cell_Str)
    with job s p cnt show ?thesis by auto
  qed
  have shape: "p = (Str (format_cell (fst p)), ?cnt (format_cell (fst p)))" if "p \<in> set ?ys" for p
    using entry [OF that] by auto
  have rows: "breakdown df key = map (\<lambda>s. [Str (''  '' @ s), Num (?cnt s)]) ?vs"
  proof -
    have each: "(case p of (v, n) \<Rightarrow> [Str (''  '' @ format_cell v), Num n])
            = [Str (''  '' @ format_cell (fst p)), Num (?cnt (format_cell (fst p)))]"
      if "p \<in> set ?ys" for p
    proof -
      from entry [OF that] obtain s where "p = (Str s, ?cnt s)" by blast
      then show ?thesis by simp
    qed
    have in_cols: "key \<in> set (columns df)"
      using k c by simp
    have "breakdown df key = map (\<lambda>(v, n). [Str (''  '' @ format_cell v), Num n]) ?ys"
      unfolding breakdown_def col using in_cols by simp
    also have "\<dots> = map (\<lambda>p. [Str (''  '' @ format_cell (fst p)),
                                Num (?cnt (format_cell (fst p)))]) ?ys"
      using each by (intro map_cong refl)
    also have "\<dots> = map (\<lambda>s. [Str (''  '' @ s), Num (?cnt s)]) ?vs"
      by (simp only: map_map comp_def)
    finally show ?thesis .
  qed
  have strs: "\<exists>s. v = Str s" if "v \<in> set (map fst ?ys)" for v
  proof -
    from that obtain p where "p \<in> set ?ys" "v = fst p" by auto
    with entry [of p] show ?thesis by auto
  qed
  have inj: "inj_on format_cell (set (map fst ?ys))"
  proof (rule inj_onI)
    fix x y
    assume x: "x \<in> set (map fst ?ys)" and y: "y \<in> set (map fst ?ys)"
      and eq: "format_cell x = format_cell y"
    from strs [OF x] obtain a where a: "x = Str a" ..
    from strs [OF y] obtain b where b: "y = Str b" ..
    from eq a b show "x = y" by simp
  qed
  have "distinct (map format_cell (map fst ?ys))"
    using value_counts_distinct [of ?col] inj by (simp only: distinct_map)
  then have dist: "distinct ?vs"
    by (simp add: comp_def)
  have set: "set ?vs = {s. s \<noteq> [] \<and> (\<exists>job \<in> set jobs. field job key = Some (PyStr s))}"
  proof (intro set_eqI iffI)
    fix s
    assume "s \<in> set ?vs"
    then obtain p where "p \<in> set ?ys" "s = format_cell (fst p)" by auto
    with entry [of p] show "s \<in> {s. s \<noteq> [] \<and> (\<exists>job \<in> set jobs. field job key = Some (PyStr s))}"
      by auto
  next
    fix s
    assume "s \<in> {s. s \<noteq> [] \<and> (\<exists>job \<in> set jobs. field job key = Some (PyStr s))}"
    then obtain job where "s \<noteq> []" "job \<in> set jobs" "sheet_cell job key = Str s"
      by (auto simp: sheet_cell_Str)
    then have "Str s \<in> set ?col - {Blank}"
      by force
    then have "(Str s, count_list ?col (Str s)) \<in> set ?ys"
      unfolding value_counts_set by blast
    then have "format_cell (fst (Str s, count_list ?col (Str s))) \<in> set ?vs"
      unfolding set_map by (rule imageI)
    then show "s \<in> set ?vs" by simp
  qed
  have "sorted_wrt (\<lambda>p q. ?cnt (format_cell (fst q)) \<le> ?cnt (format_cell (fst p))) ?ys"
  proof (rule sorted_wrt_mono_rel [OF _ value_counts_descending])
    fix p q
    assume "p \<in> set ?ys" "q \<in> set ?ys" "snd q \<le> snd p"
    then show "?cnt (format_cell (fst q)) \<le> ?cnt (format_cell (fst p))"
      using shape [of p] shape [of q] by (metis snd_conv)
  qed
  then have sorted: "sorted_wrt (\<lambda>a b. ?cnt b \<le> ?cnt a) ?vs"
    by (simp add: sorted_wrt_map)
  show ?thesis
    using rows dist set sorted by blast
qed

end
